theory Spec2Isabelle
  imports Main "HOL-Library.Word" "HOL-Library.Char_ord" "HOL-Library.List_Lexorder"
    "HOL-Library.Mapping" "HOL-Library.AList_Mapping"
begin

section \<open>Data model of main.go\<close>

subsection \<open>Values of type interface{} as encoding/json produces them\<close>

text \<open>
  Decoding JSON into \<^verbatim>\<open>interface{}\<close> yields nil, bool, float64, string,
  \<^verbatim>\<open>[]interface{}\<close> or \<^verbatim>\<open>map[string]interface{}\<close>. A float64 is carried as its
  64 bits: the program never computes with one. A top-level Go map is a partial function
  on strings; a map nested in a value is a key-value list.
\<close>

datatype json =
    JNull
  | JBool bool
  | JNumber "64 word"
  | JString string
  | JArray "json list"
  | JObject "(string \<times> json) list"

type_synonym gomap = "string \<rightharpoonup> json"

text \<open>The type assertion \<^verbatim>\<open>m[k].(string)\<close>: a missing key reads as nil, and only a
  string value passes.\<close>

fun assert_string :: "json option \<Rightarrow> string option" where
  "assert_string (Some (JString s)) = Some s"
| "assert_string _ = None"

datatype error =
    JSONError
  | ExecError string
  | ParseError
  | OSError
  | URLError

subsection \<open>The structs\<close>

text \<open>
  A Go map is a reference. \<^verbatim>\<open>Config.OllamaParams\<close> holds the address of a map object
  in the store (\<open>None\<close> is the nil map, which the decoder leaves when the configuration
  file has no \<^verbatim>\<open>ollama_params\<close> object); the contents live in the store, so that
  two variables holding the same address see each other's writes.
\<close>

type_synonym addr = nat

record Config =
  ServerAddress :: string
  APIURL :: string
  APIKey :: string
  SystemPrompt :: string
  AuthToken :: string
  DefaultModel :: string
  OllamaParams :: "addr option"
  ResponseFields :: "string list"
  RequestTimeout :: int
  StripNewline :: bool

record OllamaResponse =
  Model :: string
  CreatedAt :: string
  Response :: string
  Done :: bool
  Context :: "json list"
  TotalDuration :: "64 word"
  LoadDuration :: "64 word"
  PromptEvalCount :: "64 word"
  PromptEvalDuration :: "64 word"
  EvalCount :: "64 word"
  EvalDuration :: "64 word"

record TemplateData =
  Query :: string

subsection \<open>Compiled templates (html/template)\<close>

text \<open>
  A compiled template is the list of nodes of its parse tree. The fragment modelled has
  two kinds of node: literal text, and the action \<^verbatim>\<open>{{.Name}}\<close> that reads one
  field of the data. Literal text with a \<^verbatim>\<open><\<close> is outside the fragment (there
  html/template's contextual escaper rewrites the text and may change the escaper of
  the actions that follow), so the type of literal text excludes it: a \<open>plain\<close> is a
  byte string without \<^verbatim>\<open><\<close>, and \<open>text_of\<close> reads its bytes. On such text the
  escaper leaves the text as it is, stays in the element-content context throughout,
  and gives every action the HTML escaper.
\<close>

typedef plain = "{s :: string. CHR ''<'' \<notin> set s}"
  morphisms text_of Abs_plain
  by (intro exI [of _ "[]"]) simp

setup_lifting type_definition_plain

datatype node = TextNode plain | FieldNode string

type_synonym template = "node list"

text \<open>Of \<^verbatim>\<open>TemplateConfig\<close> only \<^verbatim>\<open>Templates\<close> is ever assigned or read; the
  fields \<^verbatim>\<open>Params\<close>, \<^verbatim>\<open>Fields\<close> and \<^verbatim>\<open>RequestTimeouts\<close> stay nil.\<close>

record TemplateConfig =
  Templates :: "(string, template) mapping"

subsection \<open>HTTP: requests, response writers, the backend\<close>

text \<open>
  Bytes on the wire are either literal text or the encoding \<^verbatim>\<open>json.Marshal\<close> returns
  for a map. Every value of type \<open>json\<close> can be encoded, so \<^verbatim>\<open>json.Marshal\<close> never
  fails on one; the handler's error branches for it are kept.
\<close>

datatype octets = Literal string | Encoded gomap

definition json_Marshal :: "gomap \<Rightarrow> error + octets" where
  "json_Marshal m = Inr (Encoded m)"

text \<open>
  The handler uses the body only through the decoder: \<open>Body r\<close> is the outcome of
  \<^verbatim>\<open>json.NewDecoder(r.Body).Decode(&haRequest)\<close>, an error or the decoded map (a nil
  map, left by the body \<^verbatim>\<open>null\<close>, reads as the empty map). \<open>Decode_map\<close> below
  gives that outcome for the bytes of a body.
\<close>

record Request =
  Header :: "string \<rightharpoonup> string"
  RemoteAddr :: string
  Body :: "error + gomap"

text \<open>
  The bytes of a body, as the decoder's scanner splits them: either they do not begin
  with a well-formed JSON value, or they are a first value (given as the Go value the
  decoder builds from it) and the bytes that follow it. The whole body is valid JSON
  when nothing but white space follows the first value. \<^verbatim>\<open>Decode\<close> reads the first
  value and stops there: it never looks at the bytes that follow. Into a
  \<^verbatim>\<open>map[string]interface{}\<close> it takes an object (of a repeated key the last value
  stays) or \<^verbatim>\<open>null\<close>, and fails on every other value.
\<close>

datatype body_text = NoValue | FirstValue json string

definition is_space :: "char \<Rightarrow> bool" where
  "is_space c = (c = CHR 0x20 \<or> c = CHR 0x09 \<or> c = CHR 0x0A \<or> c = CHR 0x0D)"

fun valid_JSON :: "body_text \<Rightarrow> bool" where
  "valid_JSON NoValue = False"
| "valid_JSON (FirstValue v rest) = list_all is_space rest"

fun Decode_map :: "body_text \<Rightarrow> error + gomap" where
  "Decode_map NoValue = Inl JSONError"
| "Decode_map (FirstValue (JObject kvs) rest) = Inr (map_of (rev kvs))"
| "Decode_map (FirstValue JNull rest) = Inr Map.empty"
| "Decode_map (FirstValue v rest) = Inl JSONError"

text \<open>\<^verbatim>\<open>Header.Get\<close>: the empty string when the header is missing.\<close>

definition Header_Get :: "(string \<rightharpoonup> string) \<Rightarrow> string \<Rightarrow> string" where
  "Header_Get h k = (case h k of None \<Rightarrow> [] | Some v \<Rightarrow> v)"

text \<open>The response writer: the header map, the status code once it is written, and
  the body written so far.\<close>

record ResponseWriter =
  hdr :: "string \<rightharpoonup> string"
  code :: "nat option"
  written :: "octets list"

definition fresh_writer :: ResponseWriter where
  "fresh_writer = \<lparr>hdr = Map.empty, code = None, written = []\<rparr>"

definition Header_Set :: "ResponseWriter \<Rightarrow> string \<Rightarrow> string \<Rightarrow> ResponseWriter" where
  "Header_Set w k v = w\<lparr>hdr := (hdr w)(k \<mapsto> v)\<rparr>"

text \<open>\<^verbatim>\<open>WriteHeader\<close> takes effect once; \<^verbatim>\<open>Write\<close> before it sends status 200.\<close>

definition WriteHeader :: "ResponseWriter \<Rightarrow> nat \<Rightarrow> ResponseWriter" where
  "WriteHeader w c = (case code w of None \<Rightarrow> w\<lparr>code := Some c\<rparr> | Some _ \<Rightarrow> w)"

definition Write :: "ResponseWriter \<Rightarrow> octets \<Rightarrow> ResponseWriter" where
  "Write w b = (let w' = WriteHeader w 200 in w'\<lparr>written := written w' @ [b]\<rparr>)"

text \<open>\<^verbatim>\<open>http.Error\<close>: plain-text content type, the status, the message and a newline.\<close>

definition http_Error :: "ResponseWriter \<Rightarrow> string \<Rightarrow> nat \<Rightarrow> ResponseWriter" where
  "http_Error w msg c =
     Write (WriteHeader
              (Header_Set (Header_Set w ''Content-Type'' ''text/plain; charset=utf-8'')
                 ''X-Content-Type-Options'' ''nosniff'') c)
           (Literal (msg @ [CHR 0x0A]))"

text \<open>
  The request sent to the backend, and what comes back. The reply's body is represented
  by the two results of \<^verbatim>\<open>json.Unmarshal\<close> on it: into the struct
  \<^verbatim>\<open>OllamaResponse\<close> and into an open map.
\<close>

record backend_request =
  Method :: string
  URL :: string
  Authorization :: string
  ContentType :: string
  Timeout :: int
  Payload :: octets

record backend_body =
  as_struct :: "error + OllamaResponse"
  as_map :: "error + gomap"

datatype backend_reply = DoFailed | ReadAllFailed | Received backend_body

text \<open>The network: whether \<^verbatim>\<open>http.NewRequestWithContext\<close> accepts the URL, and what
  \<^verbatim>\<open>client.Do\<close> followed by \<^verbatim>\<open>io.ReadAll\<close> gives for a request.\<close>

record netenv =
  url_ok :: "string \<Rightarrow> bool"
  Do :: "backend_request \<Rightarrow> backend_reply"

text \<open>The process state a handler can change: the store of map objects, and the
  requests sent to the backend so far.\<close>

record world =
  heap :: "addr \<Rightarrow> gomap"
  sent :: "backend_request list"

text \<open>Map assignment \<^verbatim>\<open>m[k] = v\<close> through a reference.\<close>

definition mapassign :: "addr \<Rightarrow> string \<Rightarrow> json \<Rightarrow> world \<Rightarrow> world" where
  "mapassign a k v \<sigma> = \<sigma>\<lparr>heap := (heap \<sigma>)(a := (heap \<sigma> a)(k \<mapsto> v))\<rparr>"

text \<open>A handler returns normally or panics (net/http recovers the panic and drops the
  connection: nothing more is written).\<close>

datatype exit = Return | Panic

type_synonym handler =
  "ResponseWriter \<Rightarrow> Request \<Rightarrow> world \<Rightarrow> exit \<times> ResponseWriter \<times> world"

section \<open>authenticate\<close>

text \<open>The slice expression \<^verbatim>\<open>s[i:]\<close>: a run-time panic when \<open>i\<close> is out of range.\<close>

definition slice_from :: "string \<Rightarrow> int \<Rightarrow> string option" where
  "slice_from s i = (if 0 \<le> i \<and> i \<le> int (length s) then Some (drop (nat i) s) else None)"

text \<open>
  The arguments of \<^verbatim>\<open>log.Printf\<close> are evaluated before \<^verbatim>\<open>http.Error\<close> runs, so a
  panic in \<^verbatim>\<open>token[len(token)-1:]\<close> leaves the response unwritten. Log output itself
  is not modelled.
\<close>

definition authenticate :: "Config \<Rightarrow> handler \<Rightarrow> handler" where
  "authenticate config next_handler w r \<sigma> =
     (let token = Header_Get (Header r) ''Authorization'' in
      if token \<noteq> ''Bearer '' @ AuthToken config then
        (case slice_from token (int (length token) - 1) of
           None \<Rightarrow> (Panic, w, \<sigma>)
         | Some _ \<Rightarrow> (Return, http_Error w ''Unauthorized'' 401, \<sigma>))
      else next_handler w r \<sigma>)"

section \<open>processTemplate\<close>

text \<open>
  html/template, element-content context: the escaper appended to every action is
  \<^verbatim>\<open>htmlEscaper\<close>, that is \<^verbatim>\<open>htmlReplacer(s, htmlReplacementTable, true)\<close>. The
  table has entries for NUL (the replacement character U+FFFD, three bytes in UTF-8) and
  for the six characters below; every rune from 0x3F on, a byte of a multi-byte rune
  included, is written as it is, so the replacement works byte by byte.
\<close>

definition htmlReplacementTable :: "char \<Rightarrow> string" where
  "htmlReplacementTable c =
     (if c = CHR 0x00 then [CHR 0xEF, CHR 0xBF, CHR 0xBD]
      else if c = CHR 0x22 then ''&#34;''
      else if c = CHR ''&'' then ''&amp;''
      else if c = CHR 0x27 then ''&#39;''
      else if c = CHR ''+'' then ''&#43;''
      else if c = CHR ''<'' then ''&lt;''
      else if c = CHR ''>'' then ''&gt;''
      else [])"

primrec htmlReplacer :: "string \<Rightarrow> string" where
  "htmlReplacer [] = []"
| "htmlReplacer (c # cs) =
     (let repl = htmlReplacementTable c in
      (if repl \<noteq> [] then repl else [c]) @ htmlReplacer cs)"

definition htmlEscaper :: "string \<Rightarrow> string" where
  "htmlEscaper s = htmlReplacer s"

text \<open>The bytes that have an entry in the replacement table.\<close>

definition escaped_bytes :: "char set" where
  "escaped_bytes = {CHR 0x00, CHR 0x22, CHR ''&'', CHR 0x27, CHR ''+'', CHR ''<'', CHR ''>''}"

text \<open>Field access on the struct \<^verbatim>\<open>TemplateData\<close>: it has the one field
  \<^verbatim>\<open>Query\<close>; any other name stops the execution with an error.\<close>

definition evalField :: "TemplateData \<Rightarrow> string \<Rightarrow> error + string" where
  "evalField d f = (if f = ''Query'' then Inr (Query d) else Inl (ExecError f))"

text \<open>\<^verbatim>\<open>tmpl.Execute(&buf, data)\<close>: the nodes in order, writing to the buffer.\<close>

fun Execute :: "template \<Rightarrow> string \<Rightarrow> TemplateData \<Rightarrow> error + string" where
  "Execute [] buf d = Inr buf"
| "Execute (TextNode s # ns) buf d = Execute ns (buf @ text_of s) d"
| "Execute (FieldNode f # ns) buf d =
     (case evalField d f of
        Inl err \<Rightarrow> Inl err
      | Inr v \<Rightarrow> Execute ns (buf @ htmlEscaper v) d)"

definition processTemplate :: "template \<Rightarrow> TemplateData \<Rightarrow> error + string" where
  "processTemplate tmpl d =
     (case Execute tmpl [] d of
        Inl err \<Rightarrow> Inl err
      | Inr processedTemplate \<Rightarrow> Inr processedTemplate)"

section \<open>templateHandler\<close>

text \<open>Lines 166 to 177: the prompt is the rendered template of the route, or the raw
  query when the registry has no template of that name.\<close>

definition renderPrompt :: "TemplateConfig \<Rightarrow> string \<Rightarrow> string \<Rightarrow> error + string" where
  "renderPrompt templateConfig templateName query =
     (case Mapping.lookup (Templates templateConfig) templateName of
        Some tmpl \<Rightarrow> processTemplate tmpl \<lparr>Query = query\<rparr>
      | None \<Rightarrow> Inr query)"

text \<open>Lines 180 to 183.\<close>

definition selectModel :: "Config \<Rightarrow> gomap \<Rightarrow> string" where
  "selectModel config haRequest =
     (case assert_string (haRequest ''model'') of
        Some modelFromRequest \<Rightarrow>
          if modelFromRequest \<noteq> [] then modelFromRequest else DefaultModel config
      | None \<Rightarrow> DefaultModel config)"

text \<open>
  Lines 186 to 188. \<^verbatim>\<open>ollamaRequest := config.OllamaParams\<close> copies the reference, not
  the map: the two assignments write into the configuration's own map object. Assigning
  into the nil map panics.
\<close>

definition buildOllamaRequest ::
  "Config \<Rightarrow> string \<Rightarrow> string \<Rightarrow> world \<Rightarrow> (addr \<times> world) option" where
  "buildOllamaRequest config fullPrompt model \<sigma> =
     (case OllamaParams config of
        None \<Rightarrow> None
      | Some ollamaRequest \<Rightarrow>
          Some (ollamaRequest,
                mapassign ollamaRequest ''model'' (JString model)
                  (mapassign ollamaRequest ''prompt'' (JString fullPrompt) \<sigma>)))"

text \<open>\<^verbatim>\<open>strings.ReplaceAll(s, old, new)\<close> for a pattern \<open>old\<close> of one byte: its
  occurrences cannot overlap, so each is replaced where it stands.\<close>

primrec ReplaceAll1 :: "string \<Rightarrow> char \<Rightarrow> string \<Rightarrow> string" where
  "ReplaceAll1 [] old new = []"
| "ReplaceAll1 (c # cs) old new = (if c = old then new else [c]) @ ReplaceAll1 cs old new"

text \<open>Lines 245 to 249: the loop over the allowlist.\<close>

primrec copyFields :: "string list \<Rightarrow> gomap \<Rightarrow> gomap \<Rightarrow> gomap" where
  "copyFields [] ollamaResponseMap filtered = filtered"
| "copyFields (field # rest) ollamaResponseMap filtered =
     copyFields rest ollamaResponseMap
       (case ollamaResponseMap field of
          Some v \<Rightarrow> filtered(field \<mapsto> v)
        | None \<Rightarrow> filtered)"

text \<open>Lines 232 to 254: the filtered response, from the typed parse and the open map.\<close>

definition filteredResponse :: "Config \<Rightarrow> OllamaResponse \<Rightarrow> gomap \<Rightarrow> gomap" where
  "filteredResponse config ollamaResponse ollamaResponseMap =
     (let filtered0 = [''response'' \<mapsto> JString (Response ollamaResponse)];
          filtered1 = copyFields (ResponseFields config) ollamaResponseMap filtered0
      in if StripNewline config
         then filtered1(''response'' \<mapsto>
                JString (ReplaceAll1 (Response ollamaResponse) (CHR 0x0A) '' ''))
         else filtered1)"

text \<open>Lines 196 to 265: one call to the backend, then the projection of its reply.
  Every failure on the way is logged and the handler returns with nothing written.\<close>

definition forward ::
  "netenv \<Rightarrow> Config \<Rightarrow> octets \<Rightarrow> ResponseWriter \<Rightarrow> world \<Rightarrow> exit \<times> ResponseWriter \<times> world" where
  "forward net config requestBody w \<sigma> =
     (if \<not> url_ok net (APIURL config) then (Return, w, \<sigma>)
      else
        let req = \<lparr>Method = ''POST'', URL = APIURL config,
                   Authorization = ''Bearer '' @ APIKey config,
                   ContentType = ''application/json'',
                   Timeout = RequestTimeout config, Payload = requestBody\<rparr>;
            \<sigma>' = \<sigma>\<lparr>sent := sent \<sigma> @ [req]\<rparr>
        in case Do net req of
             DoFailed \<Rightarrow> (Return, w, \<sigma>')
           | ReadAllFailed \<Rightarrow> (Return, w, \<sigma>')
           | Received body \<Rightarrow>
               (case as_struct body of
                  Inl err \<Rightarrow> (Return, w, \<sigma>')
                | Inr ollamaResponse \<Rightarrow>
                    (case as_map body of
                       Inl err \<Rightarrow> (Return, w, \<sigma>')
                     | Inr ollamaResponseMap \<Rightarrow>
                         (case json_Marshal
                                 (filteredResponse config ollamaResponse ollamaResponseMap) of
                            Inl err \<Rightarrow> (Return, w, \<sigma>')
                          | Inr responseBody \<Rightarrow>
                              (Return,
                               Write (Header_Set w ''Content-Type'' ''application/json'')
                                 responseBody,
                               \<sigma>')))))"

text \<open>Lines 152 to 194: from the decoded body to the serialised backend payload. The
  left summand is an early exit of the handler.\<close>

definition prepare ::
  "Config \<Rightarrow> TemplateConfig \<Rightarrow> string \<Rightarrow> ResponseWriter \<Rightarrow> Request \<Rightarrow> world
     \<Rightarrow> (exit \<times> ResponseWriter \<times> world) + (octets \<times> world)" where
  "prepare config templateConfig templateName w r \<sigma> =
     (case Body r of
        Inl err \<Rightarrow> Inl (Return, http_Error w ''Invalid request'' 400, \<sigma>)
      | Inr haRequest \<Rightarrow>
          (case assert_string (haRequest ''query'') of
             None \<Rightarrow>
               Inl (Return, http_Error w ''Query parameter missing or not a string'' 400, \<sigma>)
           | Some query \<Rightarrow>
               (case renderPrompt templateConfig templateName query of
                  Inl err \<Rightarrow>
                    Inl (Return, http_Error w ''Template processing failed'' 500, \<sigma>)
                | Inr fullPrompt \<Rightarrow>
                    (case buildOllamaRequest config fullPrompt
                            (selectModel config haRequest) \<sigma> of
                       None \<Rightarrow> Inl (Panic, w, \<sigma>)
                     | Some (ollamaRequest, \<sigma>1) \<Rightarrow>
                         (case json_Marshal (heap \<sigma>1 ollamaRequest) of
                            Inl err \<Rightarrow> Inl (Return, w, \<sigma>1)
                          | Inr requestBody \<Rightarrow> Inr (requestBody, \<sigma>1))))))"

text \<open>The function that \<^verbatim>\<open>templateHandler\<close> wraps in \<^verbatim>\<open>authenticate\<close>.\<close>

definition serve :: "netenv \<Rightarrow> Config \<Rightarrow> TemplateConfig \<Rightarrow> string \<Rightarrow> handler" where
  "serve net config templateConfig templateName w r \<sigma> =
     (case prepare config templateConfig templateName w r \<sigma> of
        Inl early \<Rightarrow> early
      | Inr (requestBody, \<sigma>1) \<Rightarrow> forward net config requestBody w \<sigma>1)"

definition templateHandler :: "netenv \<Rightarrow> Config \<Rightarrow> TemplateConfig \<Rightarrow> string \<Rightarrow> handler" where
  "templateHandler net config templateConfig templateName =
     authenticate config (serve net config templateConfig templateName)"

section \<open>loadAndCacheTemplates\<close>

text \<open>
  The file system as the loader sees it. A directory is missing, or lists its entries
  (sorted by name, as \<^verbatim>\<open>os.ReadDir\<close> returns them), or cannot be read.
  \<open>file_read fs dir name\<close> is the outcome of
  \<^verbatim>\<open>os.ReadFile(filepath.Join(dir, name))\<close>; \<open>mkdir_ok\<close> and \<open>write_ok\<close> say
  whether \<^verbatim>\<open>os.MkdirAll\<close> and \<^verbatim>\<open>os.WriteFile\<close> would succeed.
\<close>

datatype dirstate = Missing | Listing "string list" | Unreadable

record filesys =
  dirs :: "string \<Rightarrow> dirstate"
  file_read :: "string \<Rightarrow> string \<Rightarrow> error + string"
  mkdir_ok :: "string \<Rightarrow> bool"
  write_ok :: "string \<Rightarrow> string \<Rightarrow> bool"

definition os_IsNotExist_Stat :: "filesys \<Rightarrow> string \<Rightarrow> bool" where
  "os_IsNotExist_Stat fs dir = (dirs fs dir = Missing)"

definition os_MkdirAll :: "filesys \<Rightarrow> string \<Rightarrow> error + filesys" where
  "os_MkdirAll fs dir =
     (if mkdir_ok fs dir then Inr (fs\<lparr>dirs := (dirs fs)(dir := Listing [])\<rparr>)
      else Inl OSError)"

definition os_ReadDir :: "filesys \<Rightarrow> string \<Rightarrow> error + string list" where
  "os_ReadDir fs dir = (case dirs fs dir of Listing names \<Rightarrow> Inr names | _ \<Rightarrow> Inl OSError)"

definition os_WriteFile :: "filesys \<Rightarrow> string \<Rightarrow> string \<Rightarrow> string \<Rightarrow> error + filesys" where
  "os_WriteFile fs dir name content =
     (if write_ok fs dir name then
        Inr (fs\<lparr>dirs := (dirs fs)(dir :=
                 (case dirs fs dir of
                    Listing names \<Rightarrow> Listing (if name \<in> set names then names else insort name names)
                  | d \<Rightarrow> d)),
               file_read := (\<lambda>d n. if d = dir \<and> n = name then Inr content
                                    else file_read fs d n)\<rparr>)
      else Inl OSError)"

text \<open>\<^verbatim>\<open>filepath.Ext\<close>: scanning from the end up to a path separator, the suffix from
  the last dot on; empty when there is no dot.\<close>

fun ext_scan :: "string \<Rightarrow> string \<Rightarrow> string" where
  "ext_scan [] acc = []"
| "ext_scan (c # cs) acc =
     (if c = CHR ''/'' then []
      else if c = CHR ''.'' then c # acc
      else ext_scan cs (c # acc))"

definition Ext :: "string \<Rightarrow> string" where
  "Ext path = ext_scan (rev path) []"

text \<open>\<^verbatim>\<open>template.New(name).Parse(content)\<close> is a parameter of the loader: the
  template language is not parsed in this model.\<close>

type_synonym parser = "string \<Rightarrow> string \<Rightarrow> error + template"

definition defaultTemplateContent :: string where
  "defaultTemplateContent = ''{{.Query}} Default template response.''"

text \<open>Lines 91 to 109: a file that cannot be read or parsed is skipped.\<close>

fun load_files ::
  "parser \<Rightarrow> filesys \<Rightarrow> string \<Rightarrow> string list \<Rightarrow> (string, template) mapping
     \<Rightarrow> (string, template) mapping" where
  "load_files Parse fs templatesDir [] templates = templates"
| "load_files Parse fs templatesDir (templateName # files) templates =
     (if Ext templateName = ''.json'' then
        (case file_read fs templatesDir templateName of
           Inl err \<Rightarrow> load_files Parse fs templatesDir files templates
         | Inr templateString \<Rightarrow>
             (case Parse templateName templateString of
                Inl err \<Rightarrow> load_files Parse fs templatesDir files templates
              | Inr tmpl \<Rightarrow>
                  load_files Parse fs templatesDir files
                    (Mapping.update
                       (take (length templateName - length ''.json'') templateName) tmpl
                       templates)))
      else load_files Parse fs templatesDir files templates)"

text \<open>Lines 111 to 126: with no template loaded, the default one is registered and
  written to disk; a failed write is logged only.\<close>

definition ensure_default ::
  "parser \<Rightarrow> string \<Rightarrow> (string, template) mapping \<Rightarrow> filesys
     \<Rightarrow> (error + TemplateConfig) \<times> filesys" where
  "ensure_default Parse templatesDir templates fs =
     (if Mapping.is_empty templates then
        (case Parse ''default'' defaultTemplateContent of
           Inl err \<Rightarrow> (Inl err, fs)
         | Inr tmpl \<Rightarrow>
             (Inr \<lparr>Templates = Mapping.update ''default'' tmpl templates\<rparr>,
              (case os_WriteFile fs templatesDir ''default.json'' defaultTemplateContent of
                 Inl err \<Rightarrow> fs
               | Inr fs' \<Rightarrow> fs')))
      else (Inr \<lparr>Templates = templates\<rparr>, fs))"

definition loadAndCacheTemplates ::
  "parser \<Rightarrow> string \<Rightarrow> filesys \<Rightarrow> (error + TemplateConfig) \<times> filesys" where
  "loadAndCacheTemplates Parse templatesDir fs =
     (case (if os_IsNotExist_Stat fs templatesDir then os_MkdirAll fs templatesDir
            else Inr fs) of
        Inl err \<Rightarrow> (Inl err, fs)
      | Inr fs1 \<Rightarrow>
          (case os_ReadDir fs1 templatesDir of
             Inl err \<Rightarrow> (Inl err, fs1)
           | Inr files \<Rightarrow>
               ensure_default Parse templatesDir
                 (load_files Parse fs1 templatesDir files Mapping.empty) fs1))"

section \<open>A concrete deployment\<close>

text \<open>
  The configuration, registry, backend and requests that the theorems below are
  evaluated on. The backend answers every call with the body
  \<^verbatim>\<open>{"response":"hi\nthere","done":true,"eval_count":5}\<close>.
\<close>

definition ex_config :: Config where
  "ex_config =
     \<lparr>ServerAddress = '':8080'', APIURL = ''http://localhost:11434/api/generate'',
      APIKey = ''backend-key'', SystemPrompt = [], AuthToken = ''secret'',
      DefaultModel = ''llama2'', OllamaParams = Some 0,
      ResponseFields = [''eval_count''], RequestTimeout = 30, StripNewline = False\<rparr>"

definition ex_world :: world where
  "ex_world = \<lparr>heap = (\<lambda>a. Map.empty)(0 := [''stream'' \<mapsto> JBool False]), sent = []\<rparr>"

lift_definition default_suffix :: plain is "'' Default template response.''"
  by simp

lift_definition ex_suffix :: plain is "'' suffix''"
  by simp

definition ex_registry :: TemplateConfig where
  "ex_registry =
     \<lparr>Templates =
        Mapping.update ''default'' [FieldNode ''Query'', TextNode default_suffix]
          Mapping.empty\<rparr>"

definition ex_response :: OllamaResponse where
  "ex_response =
     \<lparr>Model = [], CreatedAt = [], Response = ''hi'' @ [CHR 0x0A] @ ''there'', Done = True,
      Context = [], TotalDuration = 0, LoadDuration = 0, PromptEvalCount = 0,
      PromptEvalDuration = 0, EvalCount = 5, EvalDuration = 0\<rparr>"

definition ex_response_map :: gomap where
  "ex_response_map =
     [''response'' \<mapsto> JString (''hi'' @ [CHR 0x0A] @ ''there''), ''done'' \<mapsto> JBool True,
      ''eval_count'' \<mapsto> JNumber 0x4014000000000000]"

definition ex_net :: netenv where
  "ex_net =
     \<lparr>url_ok = (\<lambda>u. True),
      Do = (\<lambda>req. Received \<lparr>as_struct = Inr ex_response, as_map = Inr ex_response_map\<rparr>)\<rparr>"

definition ex_request :: "gomap \<Rightarrow> Request" where
  "ex_request m =
     \<lparr>Header = [''Authorization'' \<mapsto> ''Bearer secret''], RemoteAddr = ''10.0.0.7:51234'',
      Body = Inr m\<rparr>"

text \<open>The body \<^verbatim>\<open>{"query":"hi"} trailing garbage\<close>.\<close>

definition ex_trailing_body :: body_text where
  "ex_trailing_body = FirstValue (JObject [(''query'', JString ''hi'')]) '' trailing garbage''"

definition ex_parser :: parser where
  "ex_parser name content =
     (if content = defaultTemplateContent
      then Inr [FieldNode ''Query'', TextNode default_suffix]
      else Inl ParseError)"

definition ex_filesys :: filesys where
  "ex_filesys =
     \<lparr>dirs = (\<lambda>d. Missing), file_read = (\<lambda>d n. Inl OSError),
      mkdir_ok = (\<lambda>d. True), write_ok = (\<lambda>d n. True)\<rparr>"

section \<open>The authenticator\<close>

lemma authenticate_mismatch:
  assumes "Header_Get (Header r) ''Authorization'' \<noteq> ''Bearer '' @ AuthToken config"
    and "Header_Get (Header r) ''Authorization'' \<noteq> []"
  shows "authenticate config nxt w r \<sigma> = (Return, http_Error w ''Unauthorized'' 401, \<sigma>)"
  using assms by (simp add: authenticate_def slice_from_def Let_def)

lemma authenticate_match:
  assumes "Header_Get (Header r) ''Authorization'' = ''Bearer '' @ AuthToken config"
  shows "authenticate config nxt w r \<sigma> = nxt w r \<sigma>"
  using assms by (simp add: authenticate_def)

lemma authenticate_world:
  assumes "snd (snd (nxt w r \<sigma>)) = \<sigma>"
  shows "snd (snd (authenticate config nxt w r \<sigma>)) = \<sigma>"
  using assms by (simp add: authenticate_def Let_def split: option.split)

lemma code_http_Error: "code (http_Error fresh_writer msg c) = Some c"
  by (simp add: http_Error_def Write_def WriteHeader_def Header_Set_def fresh_writer_def Let_def)

text \<open>
  C3. Claimed: every request whose Authorization header differs from
  \<^verbatim>\<open>"Bearer " + token\<close>, the empty or missing header included, is answered with
  HTTP 401 and the wrapped handler is not invoked. The code answers a non-empty
  mismatching header with 401 (\<open>authenticate_mismatch\<close>) and passes a matching one on
  (\<open>authenticate_match\<close>). For the missing and for the empty header it does not: the
  log statement slices \<^verbatim>\<open>token[len(token)-1:]\<close>, which is \<^verbatim>\<open>token[-1:]\<close> on the
  empty string, and the handler panics before \<^verbatim>\<open>http.Error\<close> runs. Whatever the
  configuration, the wrapped handler, the writer and the state, no status is written.
\<close>

theorem authenticate_empty_header_panics:
  "authenticate config nxt w (r\<lparr>Header := (Header r)(''Authorization'' := None)\<rparr>) \<sigma>
     = (Panic, w, \<sigma>)
   \<and> authenticate config nxt w (r\<lparr>Header := (Header r)(''Authorization'' \<mapsto> [])\<rparr>) \<sigma>
     = (Panic, w, \<sigma>)"
  by (simp add: authenticate_def Header_Get_def slice_from_def)

section \<open>Rendering\<close>

lemma Execute_query_suffix:
  "Execute [FieldNode ''Query'', TextNode suffix] buf \<lparr>Query = q\<rparr>
     = Inr (buf @ htmlEscaper q @ text_of suffix)"
  by (simp add: evalField_def)

lemma length_htmlReplacementTable:
  "htmlReplacementTable c \<noteq> [] \<Longrightarrow> 3 \<le> length (htmlReplacementTable c)"
  by (simp add: htmlReplacementTable_def split: if_splits)

lemma length_htmlReplacer: "length s \<le> length (htmlReplacer s)"
proof (induction s)
  case Nil
  show ?case by simp
next
  case (Cons c cs)
  show ?case
  proof (cases "htmlReplacementTable c = []")
    case True
    with Cons show ?thesis by (simp add: Let_def)
  next
    case False
    from length_htmlReplacementTable [OF False] Cons show ?thesis by (simp add: Let_def)
  qed
qed

lemma table_empty_iff: "htmlReplacementTable c = [] \<longleftrightarrow> c \<notin> escaped_bytes"
  by (simp add: htmlReplacementTable_def escaped_bytes_def)

lemma htmlReplacer_id_iff: "htmlReplacer s = s \<longleftrightarrow> set s \<inter> escaped_bytes = {}"
proof (induction s)
  case Nil
  show ?case by simp
next
  case (Cons c cs)
  show ?case
  proof (cases "htmlReplacementTable c = []")
    case True
    then have "c \<notin> escaped_bytes" by (simp add: table_empty_iff)
    with True Cons show ?thesis by (simp add: Let_def)
  next
    case False
    then have c: "c \<in> escaped_bytes" by (simp add: table_empty_iff)
    have "length (c # cs) < length (htmlReplacer (c # cs))"
      using length_htmlReplacementTable [OF False] length_htmlReplacer [of cs] False
      by (simp add: Let_def)
    then have "htmlReplacer (c # cs) \<noteq> c # cs" by (metis less_irrefl)
    with c show ?thesis by simp
  qed
qed

text \<open>What the template path computes for a template made of the query reference and
  a literal suffix: the escaped query, then the suffix. It is the query followed by the
  suffix exactly when the query has none of the bytes of the replacement table.\<close>

lemma processTemplate_query_suffix:
  "processTemplate [FieldNode ''Query'', TextNode suffix] \<lparr>Query = q\<rparr>
      = Inr (htmlEscaper q @ text_of suffix)
    \<and> (processTemplate [FieldNode ''Query'', TextNode suffix] \<lparr>Query = q\<rparr>
           = Inr (q @ text_of suffix)
         \<longleftrightarrow> set q \<inter> escaped_bytes = {})"
  by (simp only: processTemplate_def Execute_query_suffix)
     (simp add: htmlEscaper_def htmlReplacer_id_iff)

text \<open>The sibling path: with no template registered for the route, the query is the
  prompt, byte for byte.\<close>

lemma renderPrompt_no_template:
  assumes "Mapping.lookup (Templates templateConfig) templateName = None"
  shows "renderPrompt templateConfig templateName query = Inr query"
  using assms by (simp add: renderPrompt_def)

text \<open>
  C2. Claimed: a template made of the query reference and a literal suffix renders a
  query \<open>Q\<close> to exactly \<open>Q\<close> followed by the suffix. The code does not: the
  registry holds html/template templates, so the template path HTML-escapes the query,
  although the prompt is plain text for the backend and the path without a template
  (\<open>renderPrompt_no_template\<close>) passes the query as it is. With the template
  \<^verbatim>\<open>{{.Query}} suffix\<close> the query \<^verbatim>\<open><b>\<close> renders to \<^verbatim>\<open>&lt;b&gt; suffix\<close>, not
  to \<^verbatim>\<open><b> suffix\<close>.
\<close>

theorem render_escapes_query:
  "processTemplate [FieldNode ''Query'', TextNode ex_suffix] \<lparr>Query = ''<b>''\<rparr>
     = Inr ''&lt;b&gt; suffix''
   \<and> processTemplate [FieldNode ''Query'', TextNode ex_suffix] \<lparr>Query = ''<b>''\<rparr>
     \<noteq> Inr (''<b>'' @ text_of ex_suffix)"
  by (simp add: processTemplate_def evalField_def htmlEscaper_def htmlReplacementTable_def
        ex_suffix.rep_eq)

section \<open>The response projection\<close>

lemma copyFields_apply:
  "copyFields fs m fr k = (if k \<in> set fs \<and> m k \<noteq> None then m k else fr k)"
  by (induction fs arbitrary: fr) (auto split: option.splits)

lemma ReplaceAll1_map:
  "ReplaceAll1 s old [c'] = map (\<lambda>c. if c = old then c' else c) s"
  by (induction s) simp_all

lemma filteredResponse_apply:
  "filteredResponse config resp m k =
     (if k = ''response'' \<and> StripNewline config
      then Some (JString (ReplaceAll1 (Response resp) (CHR 0x0A) '' ''))
      else if k \<in> set (ResponseFields config) \<and> m k \<noteq> None then m k
      else if k = ''response'' then Some (JString (Response resp)) else None)"
  by (simp add: filteredResponse_def Let_def copyFields_apply)

lemma forward_success:
  assumes "url_ok net (APIURL config)"
    and "Do net \<lparr>Method = ''POST'', URL = APIURL config,
                  Authorization = ''Bearer '' @ APIKey config,
                  ContentType = ''application/json'',
                  Timeout = RequestTimeout config, Payload = b\<rparr> = Received body"
    and "as_struct body = Inr resp" and "as_map body = Inr m"
  shows "\<exists>\<sigma>'. forward net config b w \<sigma>
           = (Return,
              Write (Header_Set w ''Content-Type'' ''application/json'')
                (Encoded (filteredResponse config resp m)),
              \<sigma>')"
  using assms by (simp add: forward_def Let_def json_Marshal_def)

text \<open>
  C5. Claimed: the filtered output has exactly the key \<^verbatim>\<open>response\<close> and the
  allowlisted names present in the backend map, each copied verbatim. The keys are as
  claimed, but one value is not always a copy: with \<^verbatim>\<open>response\<close> in the allowlist
  and newline stripping on, the backend's \<^verbatim>\<open>response\<close> value \<^verbatim>\<open>"hi\nthere"\<close>
  comes out as \<^verbatim>\<open>"hi there"\<close>.
\<close>

theorem allowlisted_response_not_verbatim:
  "''response'' \<in> set (ResponseFields (ex_config\<lparr>ResponseFields := [''response''], StripNewline := True\<rparr>))
   \<and> ex_response_map ''response'' = Some (JString (''hi'' @ [CHR 0x0A] @ ''there''))
   \<and> filteredResponse (ex_config\<lparr>ResponseFields := [''response''], StripNewline := True\<rparr>)
         ex_response ex_response_map ''response''
       = Some (JString ''hi there'')
   \<and> filteredResponse (ex_config\<lparr>ResponseFields := [''response''], StripNewline := True\<rparr>)
         ex_response ex_response_map ''response''
       \<noteq> ex_response_map ''response''"
  by (simp add: filteredResponse_apply ex_response_def ex_response_map_def)

text \<open>
  C5, as amended. The filtered response (the map that \<open>forward\<close> encodes and writes,
  see \<open>forward_success\<close>) has exactly the key \<^verbatim>\<open>response\<close> and the allowlisted
  names present in the backend map. Each allowlisted field present there is copied
  verbatim, except the key \<^verbatim>\<open>response\<close> when newline stripping is on: it then
  carries the typed response string with every newline replaced by a space. An
  allowlisted name the backend map lacks is left out without error, and no name outside
  the allowlist appears.
\<close>

theorem filtered_response_fields:
  "dom (filteredResponse config resp m)
     = insert ''response'' {f. f \<in> set (ResponseFields config) \<and> f \<in> dom m}
   \<and> (\<forall>f v. f \<in> set (ResponseFields config) \<and> m f = Some v
          \<and> (f \<noteq> ''response'' \<or> \<not> StripNewline config)
        \<longrightarrow> filteredResponse config resp m f = Some v)
   \<and> (\<forall>f. f \<noteq> ''response'' \<and> (f \<notin> set (ResponseFields config) \<or> m f = None)
        \<longrightarrow> filteredResponse config resp m f = None)
   \<and> (StripNewline config \<longrightarrow>
         filteredResponse config resp m ''response''
           = Some (JString (map (\<lambda>c. if c = CHR 0x0A then CHR 0x20 else c) (Response resp))))"
proof (intro conjI)
  show "dom (filteredResponse config resp m)
     = insert ''response'' {f. f \<in> set (ResponseFields config) \<and> f \<in> dom m}"
    unfolding dom_def by (rule set_eqI) (simp add: filteredResponse_apply)
  show "\<forall>f v. f \<in> set (ResponseFields config) \<and> m f = Some v
          \<and> (f \<noteq> ''response'' \<or> \<not> StripNewline config)
        \<longrightarrow> filteredResponse config resp m f = Some v"
    by (simp add: filteredResponse_apply)
  show "\<forall>f. f \<noteq> ''response'' \<and> (f \<notin> set (ResponseFields config) \<or> m f = None)
        \<longrightarrow> filteredResponse config resp m f = None"
    by (simp add: filteredResponse_apply)
  show "StripNewline config \<longrightarrow>
         filteredResponse config resp m ''response''
           = Some (JString (map (\<lambda>c. if c = CHR 0x0A then CHR 0x20 else c) (Response resp)))"
    by (simp add: filteredResponse_apply ReplaceAll1_map)
qed

theorem filtered_response_fields_witness:
  "filteredResponse ex_config ex_response ex_response_map ''eval_count'' = Some (JNumber 0x4014000000000000)
   \<and> filteredResponse ex_config ex_response ex_response_map ''done'' = None
   \<and> ''response'' \<in> dom (filteredResponse ex_config ex_response ex_response_map)
   \<and> filteredResponse (ex_config\<lparr>ResponseFields := [''response''], StripNewline := True\<rparr>)
         ex_response ex_response_map ''response''
       = Some (JString ''hi there'')"
proof (intro conjI)
  show "filteredResponse ex_config ex_response ex_response_map ''eval_count'' = Some (JNumber 0x4014000000000000)"
    by (rule filtered_response_fields [THEN conjunct2, THEN conjunct1, rule_format])
       (simp add: ex_config_def ex_response_map_def)
  show "filteredResponse ex_config ex_response ex_response_map ''done'' = None"
    by (rule filtered_response_fields [THEN conjunct2, THEN conjunct2, THEN conjunct1, rule_format])
       (simp add: ex_config_def)
  show "''response'' \<in> dom (filteredResponse ex_config ex_response ex_response_map)"
    by (subst filtered_response_fields [THEN conjunct1]) (rule insertI1)
  let ?c = "ex_config\<lparr>ResponseFields := [''response''], StripNewline := True\<rparr>"
  have "filteredResponse ?c ex_response ex_response_map ''response''
     = Some (JString (map (\<lambda>c. if c = CHR 0x0A then CHR 0x20 else c) (Response ex_response)))"
    by (rule filtered_response_fields [THEN conjunct2, THEN conjunct2, THEN conjunct2, rule_format])
       simp
  then show "filteredResponse ?c ex_response ex_response_map ''response''
       = Some (JString ''hi there'')"
    by (simp add: ex_response_def)
qed

text \<open>
  C6. With \<^verbatim>\<open>strip_newline\<close> on, the output's \<^verbatim>\<open>response\<close> is the typed response
  string with every newline byte replaced by one space. Every other key has the same
  value with the flag on as with it off. With the flag off the \<^verbatim>\<open>response\<close> value
  is left as the earlier steps set it: the typed response string, or the backend map's
  value when \<^verbatim>\<open>response\<close> is allowlisted and present.
\<close>

theorem strip_newlines_response_only:
  "(StripNewline config \<longrightarrow>
      filteredResponse config resp m ''response''
        = Some (JString (map (\<lambda>c. if c = CHR 0x0A then CHR 0x20 else c) (Response resp))))
   \<and> (\<forall>f. f \<noteq> ''response'' \<longrightarrow>
         filteredResponse (config\<lparr>StripNewline := True\<rparr>) resp m f
           = filteredResponse (config\<lparr>StripNewline := False\<rparr>) resp m f)
   \<and> (\<not> StripNewline config \<longrightarrow>
         filteredResponse config resp m ''response''
           = (if ''response'' \<in> set (ResponseFields config) \<and> m ''response'' \<noteq> None
              then m ''response'' else Some (JString (Response resp))))"
  by (auto simp: filteredResponse_apply ReplaceAll1_map)

theorem strip_newlines_response_only_witness:
  "filteredResponse (ex_config\<lparr>StripNewline := True\<rparr>) ex_response ex_response_map ''response''
     = Some (JString ''hi there'')
   \<and> filteredResponse ex_config ex_response ex_response_map ''response''
     = Some (JString (''hi'' @ [CHR 0x0A] @ ''there''))
   \<and> filteredResponse (ex_config\<lparr>StripNewline := True\<rparr>) ex_response ex_response_map ''eval_count''
     = filteredResponse (ex_config\<lparr>StripNewline := False\<rparr>) ex_response ex_response_map ''eval_count''"
proof (intro conjI)
  have "filteredResponse (ex_config\<lparr>StripNewline := True\<rparr>) ex_response ex_response_map ''response''
     = Some (JString (map (\<lambda>c. if c = CHR 0x0A then CHR 0x20 else c) (Response ex_response)))"
    by (rule strip_newlines_response_only [THEN conjunct1, rule_format]) simp
  then show "filteredResponse (ex_config\<lparr>StripNewline := True\<rparr>) ex_response ex_response_map ''response''
     = Some (JString ''hi there'')"
    by (simp add: ex_response_def)
  have "filteredResponse ex_config ex_response ex_response_map ''response''
     = (if ''response'' \<in> set (ResponseFields ex_config) \<and> ex_response_map ''response'' \<noteq> None
        then ex_response_map ''response'' else Some (JString (Response ex_response)))"
    by (rule strip_newlines_response_only [THEN conjunct2, THEN conjunct2, rule_format]) (simp add: ex_config_def)
  then show "filteredResponse ex_config ex_response ex_response_map ''response''
     = Some (JString (''hi'' @ [CHR 0x0A] @ ''there''))"
    by (simp add: ex_config_def ex_response_def)
  show "filteredResponse (ex_config\<lparr>StripNewline := True\<rparr>) ex_response ex_response_map ''eval_count''
     = filteredResponse (ex_config\<lparr>StripNewline := False\<rparr>) ex_response ex_response_map ''eval_count''"
    by (rule strip_newlines_response_only [THEN conjunct2, THEN conjunct1, rule_format]) simp
qed

text \<open>
  C10. When \<^verbatim>\<open>response\<close> is in the allowlist and present in the backend map, the
  allowlist loop overwrites the typed value with the map's value, and that is the output
  when stripping is off. With stripping on the output's \<^verbatim>\<open>response\<close> is the
  stripped typed string whatever the allowlist holds. The example is the body
  \<^verbatim>\<open>{"response":null,"Response":"hi\nthere"}\<close>.
\<close>

theorem response_in_allowlist:
  "(\<forall>v. ''response'' \<in> set (ResponseFields config) \<and> m ''response'' = Some v \<longrightarrow>
       copyFields (ResponseFields config) m [''response'' \<mapsto> JString (Response resp)] ''response''
         = Some v
       \<and> (\<not> StripNewline config \<longrightarrow> filteredResponse config resp m ''response'' = Some v))
   \<and> (StripNewline config \<longrightarrow>
         filteredResponse config resp m ''response''
           = Some (JString (map (\<lambda>c. if c = CHR 0x0A then CHR 0x20 else c) (Response resp))))"
  by (auto simp: filteredResponse_apply ReplaceAll1_map copyFields_apply)

theorem response_in_allowlist_witness:
  "filteredResponse (ex_config\<lparr>ResponseFields := [''response'']\<rparr>) ex_response
       (ex_response_map(''response'' \<mapsto> JNull)) ''response'' = Some JNull
   \<and> filteredResponse (ex_config\<lparr>ResponseFields := [''response''], StripNewline := True\<rparr>) ex_response
       (ex_response_map(''response'' \<mapsto> JNull)) ''response'' = Some (JString ''hi there'')"
proof (intro conjI)
  let ?m = "ex_response_map(''response'' \<mapsto> JNull)"
  let ?c = "ex_config\<lparr>ResponseFields := [''response'']\<rparr>"
  let ?d = "ex_config\<lparr>ResponseFields := [''response''], StripNewline := True\<rparr>"
  have a: "''response'' \<in> set (ResponseFields ?c) \<and> ?m ''response'' = Some JNull" by simp
  have off: "\<not> StripNewline ?c" by (simp add: ex_config_def)
  from response_in_allowlist [of ?c ?m ex_response, THEN conjunct1, rule_format, of JNull, OF a,
      THEN conjunct2, rule_format, OF off]
  show "filteredResponse ?c ex_response ?m ''response'' = Some JNull" .
  have "filteredResponse ?d ex_response ?m ''response''
     = Some (JString (map (\<lambda>c. if c = CHR 0x0A then CHR 0x20 else c) (Response ex_response)))"
    by (rule response_in_allowlist [THEN conjunct2, rule_format]) simp
  then show "filteredResponse ?d ex_response ?m ''response'' = Some (JString ''hi there'')"
    by (simp add: ex_response_def)
qed

section \<open>Building the backend payload\<close>

lemma selectModel_cases:
  "(\<forall>x. haRequest ''model'' = Some (JString x) \<and> x \<noteq> [] \<longrightarrow> selectModel config haRequest = x)
   \<and> ((\<forall>x. haRequest ''model'' = Some (JString x) \<longrightarrow> x = []) \<longrightarrow>
        selectModel config haRequest = DefaultModel config)"
proof (intro conjI allI impI)
  fix x assume "haRequest ''model'' = Some (JString x) \<and> x \<noteq> []"
  then show "selectModel config haRequest = x" by (simp add: selectModel_def)
next
  assume a: "\<forall>x. haRequest ''model'' = Some (JString x) \<longrightarrow> x = []"
  show "selectModel config haRequest = DefaultModel config"
  proof (cases "assert_string (haRequest ''model'')")
    case None then show ?thesis by (simp add: selectModel_def)
  next
    case (Some x)
    then have "haRequest ''model'' = Some (JString x)"
      by (cases "haRequest ''model''" rule: assert_string.cases) simp_all
    with a have "x = []" by blast
    with Some show ?thesis by (simp add: selectModel_def)
  qed
qed

lemma prepare_Inr:
  assumes "prepare config tc name w r \<sigma> = Inr (b, \<sigma>1)"
  shows "\<exists>haRequest q fullPrompt a.
           Body r = Inr haRequest \<and> haRequest ''query'' = Some (JString q)
         \<and> renderPrompt tc name q = Inr fullPrompt \<and> OllamaParams config = Some a
         \<and> \<sigma>1 = mapassign a ''model'' (JString (selectModel config haRequest))
                  (mapassign a ''prompt'' (JString fullPrompt) \<sigma>)
         \<and> b = Encoded (heap \<sigma>1 a)"
proof -
  from assms obtain haRequest where h: "Body r = Inr haRequest"
    by (cases "Body r") (simp_all add: prepare_def)
  from assms h obtain q where q: "assert_string (haRequest ''query'') = Some q"
    by (cases "assert_string (haRequest ''query'')") (simp_all add: prepare_def)
  then have q': "haRequest ''query'' = Some (JString q)"
    by (cases "haRequest ''query''" rule: assert_string.cases) simp_all
  from assms h q obtain fullPrompt where f: "renderPrompt tc name q = Inr fullPrompt"
    by (cases "renderPrompt tc name q") (simp_all add: prepare_def)
  from assms h q f obtain a where a: "OllamaParams config = Some a"
    by (cases "OllamaParams config") (simp_all add: prepare_def buildOllamaRequest_def)
  from assms h q f a have
    "\<sigma>1 = mapassign a ''model'' (JString (selectModel config haRequest))
                  (mapassign a ''prompt'' (JString fullPrompt) \<sigma>)
     \<and> b = Encoded (heap \<sigma>1 a)"
    by (auto simp add: prepare_def buildOllamaRequest_def json_Marshal_def)
  with h q' f a show ?thesis by blast
qed

lemma prepare_builds:
  assumes "Body r = Inr haRequest" and "haRequest ''query'' = Some (JString q)"
    and "renderPrompt tc name q = Inr fullPrompt" and "OllamaParams config = Some a"
  shows "prepare config tc name w r \<sigma>
     = Inr (Encoded ((heap \<sigma> a)(''prompt'' \<mapsto> JString fullPrompt,
                               ''model'' \<mapsto> JString (selectModel config haRequest))),
            mapassign a ''model'' (JString (selectModel config haRequest))
                  (mapassign a ''prompt'' (JString fullPrompt) \<sigma>))"
  using assms by (simp add: prepare_def buildOllamaRequest_def json_Marshal_def mapassign_def)

lemma serve_sends:
  assumes "prepare config tc name w r \<sigma> = Inr (b, \<sigma>1)" and "url_ok net (APIURL config)"
  shows "\<exists>req. sent (snd (snd (serve net config tc name w r \<sigma>))) = sent \<sigma> @ [req] \<and> Payload req = b"
proof -
  from prepare_Inr [OF assms(1)] have s: "sent \<sigma>1 = sent \<sigma>"
    by (auto simp: mapassign_def)
  have "serve net config tc name w r \<sigma> = forward net config b w \<sigma>1"
    using assms(1) by (simp add: serve_def)
  moreover have "\<exists>req. sent (snd (snd (forward net config b w \<sigma>1))) = sent \<sigma>1 @ [req] \<and> Payload req = b"
    using assms(2)
    by (simp add: forward_def Let_def json_Marshal_def split: backend_reply.split sum.split)
  ultimately show ?thesis using s by simp
qed

lemma authenticate_same_header:
  assumes h: "Header r' = Header r" and n: "nxt w r \<sigma> = nxt' w r' \<sigma>"
  shows "authenticate config nxt w r \<sigma> = authenticate config nxt' w r' \<sigma>"
proof (cases "Header_Get (Header r) ''Authorization'' = ''Bearer '' @ AuthToken config")
  case True
  then have "Header_Get (Header r') ''Authorization'' = ''Bearer '' @ AuthToken config"
    by (simp add: h)
  from authenticate_match [OF True] authenticate_match [OF this] n show ?thesis by simp
next
  case False
  then show ?thesis by (simp add: authenticate_def h Let_def)
qed

lemma render_hi:
  "renderPrompt ex_registry ''default'' ''hi'' = Inr ''hi Default template response.''"
  by (simp add: renderPrompt_def ex_registry_def processTemplate_def evalField_def
        htmlEscaper_def htmlReplacementTable_def default_suffix.rep_eq)

lemma ex_header:
  "Header_Get (Header (ex_request m)) ''Authorization'' = ''Bearer '' @ AuthToken ex_config"
  by (simp add: ex_request_def ex_config_def Header_Get_def)

lemma forward_heap: "heap (snd (snd (forward net config b w \<sigma>))) = heap \<sigma>"
  by (simp add: forward_def Let_def split: backend_reply.split sum.split)

text \<open>
  C4. Whenever the handler builds a backend payload, the payload's \<^verbatim>\<open>model\<close> is the
  request's \<^verbatim>\<open>model\<close> field if that is a non-empty string, and the configured
  default model otherwise (field absent, not a string, or the empty string); with an
  acceptable backend URL that payload is the body of the one request sent. A payload is
  built whenever the query is a string, the prompt renders and the configuration has a
  parameter map.
\<close>

theorem model_selection:
  assumes body: "Body r = Inr haRequest"
  shows "(\<forall>b \<sigma>1. prepare config tc name w r \<sigma> = Inr (b, \<sigma>1) \<longrightarrow>
            (\<exists>p. b = Encoded p
               \<and> (\<forall>x. haRequest ''model'' = Some (JString x) \<and> x \<noteq> [] \<longrightarrow>
                      p ''model'' = Some (JString x))
               \<and> ((\<forall>x. haRequest ''model'' = Some (JString x) \<longrightarrow> x = []) \<longrightarrow>
                      p ''model'' = Some (JString (DefaultModel config))))
            \<and> (url_ok net (APIURL config) \<longrightarrow>
                 (\<exists>req. sent (snd (snd (serve net config tc name w r \<sigma>))) = sent \<sigma> @ [req]
                       \<and> Payload req = b)))
       \<and> ((\<exists>q fullPrompt a. haRequest ''query'' = Some (JString q)
              \<and> renderPrompt tc name q = Inr fullPrompt \<and> OllamaParams config = Some a) \<longrightarrow>
            (\<exists>b \<sigma>1. prepare config tc name w r \<sigma> = Inr (b, \<sigma>1)))"
proof (intro conjI allI impI)
  fix b \<sigma>1 assume p: "prepare config tc name w r \<sigma> = Inr (b, \<sigma>1)"
  from prepare_Inr [OF p] body obtain fullPrompt a where
    1: "\<sigma>1 = mapassign a ''model'' (JString (selectModel config haRequest))
                  (mapassign a ''prompt'' (JString fullPrompt) \<sigma>)"
    and 2: "b = Encoded (heap \<sigma>1 a)"
    by auto
  from 1 have m: "heap \<sigma>1 a ''model'' = Some (JString (selectModel config haRequest))"
    by (simp add: mapassign_def)
  note sm = selectModel_cases [of haRequest config]
  show "\<exists>p. b = Encoded p
               \<and> (\<forall>x. haRequest ''model'' = Some (JString x) \<and> x \<noteq> [] \<longrightarrow>
                      p ''model'' = Some (JString x))
               \<and> ((\<forall>x. haRequest ''model'' = Some (JString x) \<longrightarrow> x = []) \<longrightarrow>
                      p ''model'' = Some (JString (DefaultModel config)))"
  proof (intro exI [of _ "heap \<sigma>1 a"] conjI)
    show "b = Encoded (heap \<sigma>1 a)" by (rule 2)
    show "\<forall>x. haRequest ''model'' = Some (JString x) \<and> x \<noteq> [] \<longrightarrow>
                      heap \<sigma>1 a ''model'' = Some (JString x)"
      using sm [THEN conjunct1] m by simp
    show "(\<forall>x. haRequest ''model'' = Some (JString x) \<longrightarrow> x = []) \<longrightarrow>
                      heap \<sigma>1 a ''model'' = Some (JString (DefaultModel config))"
      using sm [THEN conjunct2] m by simp
  qed
next
  fix b \<sigma>1 assume p: "prepare config tc name w r \<sigma> = Inr (b, \<sigma>1)"
    and u: "url_ok net (APIURL config)"
  from serve_sends [OF p u]
  show "\<exists>req. sent (snd (snd (serve net config tc name w r \<sigma>))) = sent \<sigma> @ [req] \<and> Payload req = b" .
next
  assume "\<exists>q fullPrompt a. haRequest ''query'' = Some (JString q)
              \<and> renderPrompt tc name q = Inr fullPrompt \<and> OllamaParams config = Some a"
  then obtain q :: string and fullPrompt a where "haRequest ''query'' = Some (JString q)"
     "renderPrompt tc name q = Inr fullPrompt" "OllamaParams config = Some a" by blast
  from prepare_builds [OF body this]
  show "\<exists>b \<sigma>1. prepare config tc name w r \<sigma> = Inr (b, \<sigma>1)" by blast
qed

theorem model_selection_witness:
  "(\<exists>p \<sigma>1. prepare ex_config ex_registry ''default'' fresh_writer
        (ex_request [''query'' \<mapsto> JString ''hi'', ''model'' \<mapsto> JString ''mistral'']) ex_world
          = Inr (Encoded p, \<sigma>1)
        \<and> p ''model'' = Some (JString ''mistral''))
   \<and> (\<exists>p \<sigma>1. prepare ex_config ex_registry ''default'' fresh_writer
        (ex_request [''query'' \<mapsto> JString ''hi'']) ex_world = Inr (Encoded p, \<sigma>1)
        \<and> p ''model'' = Some (JString ''llama2''))"
proof (intro conjI)
  let ?m = "[''query'' \<mapsto> JString ''hi'', ''model'' \<mapsto> JString ''mistral'']"
  have body: "Body (ex_request ?m) = Inr ?m" by (simp add: ex_request_def)
  note t = model_selection [OF body, of ex_config ex_registry "''default''" fresh_writer ex_world ex_net]
  have "\<exists>q fullPrompt a. ?m ''query'' = Some (JString q)
      \<and> renderPrompt ex_registry ''default'' q = Inr fullPrompt \<and> OllamaParams ex_config = Some a"
    using render_hi by (simp add: ex_config_def)
  with t [THEN conjunct2] obtain b \<sigma>1 where
    p: "prepare ex_config ex_registry ''default'' fresh_writer (ex_request ?m) ex_world = Inr (b, \<sigma>1)"
    by blast
  from t [THEN conjunct1, rule_format, OF p, THEN conjunct1] obtain p' where
    e: "b = Encoded p'"
    and m: "\<forall>x. ?m ''model'' = Some (JString x) \<and> x \<noteq> [] \<longrightarrow> p' ''model'' = Some (JString x)"
    by blast
  have "?m ''model'' = Some (JString ''mistral'') \<and> ''mistral'' \<noteq> []" by simp
  with m have "p' ''model'' = Some (JString ''mistral'')" by blast
  with p e show "\<exists>p \<sigma>1. prepare ex_config ex_registry ''default'' fresh_writer
        (ex_request ?m) ex_world = Inr (Encoded p, \<sigma>1) \<and> p ''model'' = Some (JString ''mistral'')"
    by blast
next
  let ?m = "[''query'' \<mapsto> JString ''hi'']"
  have body: "Body (ex_request ?m) = Inr ?m" by (simp add: ex_request_def)
  note t = model_selection [OF body, of ex_config ex_registry "''default''" fresh_writer ex_world ex_net]
  have "\<exists>q fullPrompt a. ?m ''query'' = Some (JString q)
      \<and> renderPrompt ex_registry ''default'' q = Inr fullPrompt \<and> OllamaParams ex_config = Some a"
    using render_hi by (simp add: ex_config_def)
  with t [THEN conjunct2] obtain b \<sigma>1 where
    p: "prepare ex_config ex_registry ''default'' fresh_writer (ex_request ?m) ex_world = Inr (b, \<sigma>1)"
    by blast
  from t [THEN conjunct1, rule_format, OF p, THEN conjunct1] obtain p' where
    e: "b = Encoded p'"
    and m: "(\<forall>x. ?m ''model'' = Some (JString x) \<longrightarrow> x = []) \<longrightarrow>
              p' ''model'' = Some (JString (DefaultModel ex_config))"
    by blast
  have "\<forall>x. ?m ''model'' = Some (JString x) \<longrightarrow> x = []" by simp
  with m have "p' ''model'' = Some (JString ''llama2'')" by (simp add: ex_config_def)
  with p e show "\<exists>p \<sigma>1. prepare ex_config ex_registry ''default'' fresh_writer
        (ex_request ?m) ex_world = Inr (Encoded p, \<sigma>1) \<and> p ''model'' = Some (JString ''llama2'')"
    by blast
qed

text \<open>
  C9. Two requests that differ only in their decoded bodies, and whose bodies agree on
  \<^verbatim>\<open>query\<close> and on \<^verbatim>\<open>model\<close>, give the same backend payload and the same
  outcome of the whole handler, the list of requests sent to the backend included: no
  other client field reaches the backend.
\<close>

theorem extra_fields_not_forwarded:
  assumes "m1 ''query'' = m2 ''query''" and "m1 ''model'' = m2 ''model''"
  shows "prepare config tc name w (r\<lparr>Body := Inr m1\<rparr>) \<sigma>
           = prepare config tc name w (r\<lparr>Body := Inr m2\<rparr>) \<sigma>
       \<and> templateHandler net config tc name w (r\<lparr>Body := Inr m1\<rparr>) \<sigma>
           = templateHandler net config tc name w (r\<lparr>Body := Inr m2\<rparr>) \<sigma>"
proof -
  have s: "selectModel config m1 = selectModel config m2"
    using assms(2) by (simp add: selectModel_def)
  have p: "prepare config tc name w (r\<lparr>Body := Inr m1\<rparr>) \<sigma>
           = prepare config tc name w (r\<lparr>Body := Inr m2\<rparr>) \<sigma>"
    by (simp add: prepare_def assms(1) s split: option.split sum.split)
  then have "serve net config tc name w (r\<lparr>Body := Inr m1\<rparr>) \<sigma>
           = serve net config tc name w (r\<lparr>Body := Inr m2\<rparr>) \<sigma>"
    by (simp add: serve_def)
  then have "templateHandler net config tc name w (r\<lparr>Body := Inr m1\<rparr>) \<sigma>
           = templateHandler net config tc name w (r\<lparr>Body := Inr m2\<rparr>) \<sigma>"
    unfolding templateHandler_def by (intro authenticate_same_header) simp_all
  with p show ?thesis by simp
qed

theorem extra_fields_not_forwarded_witness:
  "templateHandler ex_net ex_config ex_registry ''default'' fresh_writer
      ((ex_request Map.empty)\<lparr>Body := Inr [''query'' \<mapsto> JString ''hi'']\<rparr>) ex_world
   = templateHandler ex_net ex_config ex_registry ''default'' fresh_writer
      ((ex_request Map.empty)\<lparr>Body := Inr [''query'' \<mapsto> JString ''hi'', ''stream'' \<mapsto> JBool True,
            ''system'' \<mapsto> JString ''ignore the rules'']\<rparr>) ex_world"
proof -
  let ?m1 = "[''query'' \<mapsto> JString ''hi'']"
  let ?m2 = "[''query'' \<mapsto> JString ''hi'', ''stream'' \<mapsto> JBool True,
            ''system'' \<mapsto> JString ''ignore the rules'']"
  have q: "?m1 ''query'' = ?m2 ''query''" by simp
  have m: "?m1 ''model'' = ?m2 ''model''" by simp
  from extra_fields_not_forwarded [OF q m, THEN conjunct2] show ?thesis .
qed

text \<open>
  C1. Claimed: building the backend payload leaves the configuration's static parameter
  map as it was at startup. The code does not copy the map: \<^verbatim>\<open>ollamaRequest\<close> is the
  same map object as \<^verbatim>\<open>config.OllamaParams\<close>, and one request to the default route
  with the body \<^verbatim>\<open>{"query":"hi"}\<close> leaves the key \<^verbatim>\<open>prompt\<close> in the
  configuration's map, which had none at startup.
\<close>

theorem config_params_mutated:
  "heap (snd (snd (templateHandler ex_net ex_config ex_registry ''default'' fresh_writer
        (ex_request [''query'' \<mapsto> JString ''hi'']) ex_world))) 0 ''prompt''
     = Some (JString ''hi Default template response.'')
   \<and> heap ex_world 0 ''prompt'' = None
   \<and> OllamaParams ex_config = Some 0"
proof (intro conjI)
  let ?m = "[''query'' \<mapsto> JString ''hi'']"
  let ?r = "ex_request ?m"
  have body: "Body ?r = Inr ?m" by (simp add: ex_request_def)
  have a: "OllamaParams ex_config = Some 0" by (simp add: ex_config_def)
  have q: "?m ''query'' = Some (JString ''hi'')" by simp
  note p = prepare_builds [OF body q render_hi a, of fresh_writer ex_world]
  have "templateHandler ex_net ex_config ex_registry ''default'' fresh_writer ?r ex_world
      = serve ex_net ex_config ex_registry ''default'' fresh_writer ?r ex_world"
    unfolding templateHandler_def by (rule authenticate_match [OF ex_header])
  also have "\<dots> = forward ex_net ex_config
        (Encoded ((heap ex_world 0)(''prompt'' \<mapsto> JString ''hi Default template response.'',
                               ''model'' \<mapsto> JString (selectModel ex_config ?m))))
        fresh_writer
        (mapassign 0 ''model'' (JString (selectModel ex_config ?m))
                  (mapassign 0 ''prompt'' (JString ''hi Default template response.'') ex_world))"
    by (simp only: serve_def p sum.case prod.case)
  finally have "heap (snd (snd (templateHandler ex_net ex_config ex_registry ''default'' fresh_writer ?r ex_world)))
      = heap (mapassign 0 ''model'' (JString (selectModel ex_config ?m))
                  (mapassign 0 ''prompt'' (JString ''hi Default template response.'') ex_world))"
    by (simp only: forward_heap)
  then show "heap (snd (snd (templateHandler ex_net ex_config ex_registry ''default'' fresh_writer
        ?r ex_world))) 0 ''prompt'' = Some (JString ''hi Default template response.'')"
    by (simp add: mapassign_def)
  show "heap ex_world 0 ''prompt'' = None" by (simp add: ex_world_def)
  show "OllamaParams ex_config = Some 0" by (rule a)
qed

section \<open>Loading the templates\<close>

lemma load_files_none:
  assumes "\<forall>name s t. name \<in> set files \<and> Ext name = ''.json'' \<and> file_read fs dir name = Inr s
             \<longrightarrow> Parse name s \<noteq> Inr t"
  shows "load_files Parse fs dir files T = T"
  using assms
proof (induction files arbitrary: T)
  case Nil
  show ?case by simp
next
  case (Cons name files)
  then have ih: "\<And>T. load_files Parse fs dir files T = T" by simp
  show ?case
  proof (cases "Ext name = ''.json''")
    case False
    then show ?thesis by (simp add: ih)
  next
    case True
    show ?thesis
    proof (cases "file_read fs dir name")
      case (Inl e)
      with True show ?thesis by (simp add: ih)
    next
      case (Inr s)
      with True Cons.prems have "\<forall>t. Parse name s \<noteq> Inr t" by simp
      then obtain e where "Parse name s = Inl e" by (cases "Parse name s") auto
      with True Inr show ?thesis by (simp add: ih)
    qed
  qed
qed

lemma load_files_nonempty:
  "\<not> Mapping.is_empty T \<Longrightarrow> \<not> Mapping.is_empty (load_files Parse fs dir files T)"
proof (induction files arbitrary: T)
  case Nil
  then show ?case by simp
next
  case (Cons name files)
  have u: "\<And>k v. \<not> Mapping.is_empty (load_files Parse fs dir files (Mapping.update k v T))"
    by (rule Cons.IH) (rule is_empty_update)
  from Cons.IH [OF Cons.prems] u show ?case
    by (simp split: sum.split)
qed

lemma ensure_default_nonempty:
  assumes "ensure_default Parse dir T fs = (Inr tc, fs')"
  shows "\<not> Mapping.is_empty (Templates tc)"
  using assms
  by (cases "Mapping.is_empty T"; cases "Parse ''default'' defaultTemplateContent")
     (auto simp: ensure_default_def)

lemma ensure_default_empty:
  assumes "ensure_default Parse dir Mapping.empty fs = (Inr tc, fs')"
  shows "Mapping.keys (Templates tc) = {''default''}"
  using assms
  by (cases "Parse ''default'' defaultTemplateContent")
     (auto simp: ensure_default_def split: if_splits)

lemma ensure_default_succeeds:
  assumes "Parse ''default'' defaultTemplateContent = Inr t"
  shows "\<exists>tc fs'. ensure_default Parse dir T fs = (Inr tc, fs')"
  using assms by (simp add: ensure_default_def)

lemma load_unfold:
  "loadAndCacheTemplates Parse dir fs =
     (case dirs fs dir of
        Missing \<Rightarrow>
          if mkdir_ok fs dir
          then ensure_default Parse dir Mapping.empty
                 (fs\<lparr>dirs := (dirs fs)(dir := Listing [])\<rparr>)
          else (Inl OSError, fs)
      | Listing names \<Rightarrow>
          ensure_default Parse dir (load_files Parse fs dir names Mapping.empty) fs
      | Unreadable \<Rightarrow> (Inl OSError, fs))"
  by (simp add: loadAndCacheTemplates_def os_IsNotExist_Stat_def os_MkdirAll_def os_ReadDir_def
        split: dirstate.split)

text \<open>
  C8. Whenever \<open>loadAndCacheTemplates\<close> returns a registry, the registry is not
  empty; and if no listed \<^verbatim>\<open>.json\<close> file is both readable and parseable (in
  particular when the directory is empty or missing), the registry has exactly the one
  entry \<^verbatim>\<open>default\<close>. A registry is returned whenever the directory can be listed,
  or is missing and can be created, and the default template text parses.
\<close>

theorem default_template_when_none_parse:
  "(\<forall>tc fs'. loadAndCacheTemplates Parse dir fs = (Inr tc, fs') \<longrightarrow>
      \<not> Mapping.is_empty (Templates tc)
      \<and> ((\<forall>name s t. name \<in> set (case dirs fs dir of Listing names \<Rightarrow> names | _ \<Rightarrow> [])
               \<and> Ext name = ''.json'' \<and> file_read fs dir name = Inr s
             \<longrightarrow> Parse name s \<noteq> Inr t)
          \<longrightarrow> Mapping.keys (Templates tc) = {''default''}))
   \<and> ((dirs fs dir = Missing \<longrightarrow> mkdir_ok fs dir) \<and> dirs fs dir \<noteq> Unreadable
        \<and> (\<exists>t. Parse ''default'' defaultTemplateContent = Inr t)
      \<longrightarrow> (\<exists>tc fs'. loadAndCacheTemplates Parse dir fs = (Inr tc, fs')))"
proof (intro conjI allI impI)
  fix tc fs' assume l: "loadAndCacheTemplates Parse dir fs = (Inr tc, fs')"
  then show "\<not> Mapping.is_empty (Templates tc)"
    by (cases "dirs fs dir")
       (auto simp: load_unfold dest: ensure_default_nonempty split: if_splits)
next
  fix tc fs' assume l: "loadAndCacheTemplates Parse dir fs = (Inr tc, fs')"
    and none: "\<forall>name s t. name \<in> set (case dirs fs dir of Listing names \<Rightarrow> names | _ \<Rightarrow> [])
               \<and> Ext name = ''.json'' \<and> file_read fs dir name = Inr s
             \<longrightarrow> Parse name s \<noteq> Inr t"
  show "Mapping.keys (Templates tc) = {''default''}"
  proof (cases "dirs fs dir")
    case Missing
    with l show ?thesis
      by (auto simp: load_unfold dest: ensure_default_empty split: if_splits)
  next
    case (Listing names)
    with none have "load_files Parse fs dir names Mapping.empty = Mapping.empty"
      by (intro load_files_none) simp
    with l Listing show ?thesis
      by (auto simp: load_unfold dest: ensure_default_empty)
  next
    case Unreadable
    with l show ?thesis by (simp add: load_unfold)
  qed
next
  assume a: "(dirs fs dir = Missing \<longrightarrow> mkdir_ok fs dir) \<and> dirs fs dir \<noteq> Unreadable
        \<and> (\<exists>t. Parse ''default'' defaultTemplateContent = Inr t)"
  then obtain t where t: "Parse ''default'' defaultTemplateContent = Inr t" by blast
  show "\<exists>tc fs'. loadAndCacheTemplates Parse dir fs = (Inr tc, fs')"
  proof (cases "dirs fs dir")
    case Missing
    with a ensure_default_succeeds [where Parse = Parse, OF t] show ?thesis by (simp add: load_unfold)
  next
    case (Listing names)
    with ensure_default_succeeds [where Parse = Parse, OF t] show ?thesis by (simp add: load_unfold)
  next
    case Unreadable
    with a show ?thesis by simp
  qed
qed

theorem default_template_when_none_parse_witness:
  "\<exists>tc fs'. loadAndCacheTemplates ex_parser ''./templates'' ex_filesys = (Inr tc, fs')
      \<and> Mapping.keys (Templates tc) = {''default''}"
proof -
  note t = default_template_when_none_parse [of ex_parser "''./templates''" ex_filesys]
  have d: "dirs ex_filesys ''./templates'' = Missing" by (simp add: ex_filesys_def)
  have "(dirs ex_filesys ''./templates'' = Missing \<longrightarrow> mkdir_ok ex_filesys ''./templates'')
        \<and> dirs ex_filesys ''./templates'' \<noteq> Unreadable
        \<and> (\<exists>t. ex_parser ''default'' defaultTemplateContent = Inr t)"
    by (simp add: ex_filesys_def ex_parser_def)
  with t [THEN conjunct2] obtain tc fs' where
    l: "loadAndCacheTemplates ex_parser ''./templates'' ex_filesys = (Inr tc, fs')" by blast
  have "\<forall>name s t. name \<in> set (case dirs ex_filesys ''./templates'' of Listing names \<Rightarrow> names | _ \<Rightarrow> [])
               \<and> Ext name = ''.json'' \<and> file_read ex_filesys ''./templates'' name = Inr s
             \<longrightarrow> ex_parser name s \<noteq> Inr t"
    by (simp add: d)
  with t [THEN conjunct1, rule_format, OF l, THEN conjunct2] have "Mapping.keys (Templates tc) = {''default''}"
    by blast
  with l show ?thesis by blast
qed

section \<open>Rejected requests\<close>

lemma assert_string_None:
  assumes "\<forall>s. v \<noteq> Some (JString s)"
  shows "assert_string v = None"
  using assms by (cases v rule: assert_string.cases) simp_all

lemma prepare_bad_request:
  assumes bad: "Body r = Inl e \<or> (Body r = Inr m \<and> (\<forall>s. m ''query'' \<noteq> Some (JString s)))"
  shows "\<exists>msg. prepare config tc name w r \<sigma> = Inl (Return, http_Error w msg 400, \<sigma>)"
  using bad
proof
  assume "Body r = Inl e"
  then show ?thesis
    by (intro exI [of _ "''Invalid request''"]) (simp add: prepare_def)
next
  assume a: "Body r = Inr m \<and> (\<forall>s. m ''query'' \<noteq> Some (JString s))"
  then have "assert_string (m ''query'') = None" by (simp add: assert_string_None)
  with a show ?thesis
    by (intro exI [of _ "''Query parameter missing or not a string''"]) (simp add: prepare_def)
qed

text \<open>In terms of what \<^verbatim>\<open>Decode\<close> returned: an error, or a map without a string
  \<^verbatim>\<open>query\<close>.\<close>

lemma serve_rejects_bad_request:
  assumes bad: "Body r = Inl e \<or> (Body r = Inr m \<and> (\<forall>s. m ''query'' \<noteq> Some (JString s)))"
  shows "\<exists>w'. serve net config tc name fresh_writer r \<sigma> = (Return, w', \<sigma>) \<and> code w' = Some 400
     \<and> (Header_Get (Header r) ''Authorization'' = ''Bearer '' @ AuthToken config \<longrightarrow>
          templateHandler net config tc name fresh_writer r \<sigma> = (Return, w', \<sigma>))
     \<and> sent (snd (snd (templateHandler net config tc name fresh_writer r \<sigma>))) = sent \<sigma>"
proof -
  from prepare_bad_request [OF bad] obtain msg where
    "prepare config tc name fresh_writer r \<sigma> = Inl (Return, http_Error fresh_writer msg 400, \<sigma>)"
    by blast
  then have s: "serve net config tc name fresh_writer r \<sigma>
      = (Return, http_Error fresh_writer msg 400, \<sigma>)"
    by (simp add: serve_def)
  have a: "Header_Get (Header r) ''Authorization'' = ''Bearer '' @ AuthToken config \<longrightarrow>
      templateHandler net config tc name fresh_writer r \<sigma>
        = (Return, http_Error fresh_writer msg 400, \<sigma>)"
  proof
    assume h: "Header_Get (Header r) ''Authorization'' = ''Bearer '' @ AuthToken config"
    show "templateHandler net config tc name fresh_writer r \<sigma>
        = (Return, http_Error fresh_writer msg 400, \<sigma>)"
      unfolding templateHandler_def by (simp only: authenticate_match [OF h] s)
  qed
  have "snd (snd (templateHandler net config tc name fresh_writer r \<sigma>)) = \<sigma>"
    unfolding templateHandler_def by (rule authenticate_world) (simp only: s snd_conv)
  then have b: "sent (snd (snd (templateHandler net config tc name fresh_writer r \<sigma>))) = sent \<sigma>"
    by simp
  from s a b code_http_Error show ?thesis by blast
qed

lemma Decode_map_fails:
  assumes "b = NoValue \<or> (\<exists>v rest. b = FirstValue v rest \<and> (\<forall>kvs. v \<noteq> JObject kvs) \<and> v \<noteq> JNull)"
  shows "Decode_map b = Inl JSONError"
  using assms
proof
  assume "b = NoValue"
  then show ?thesis by simp
next
  assume "\<exists>v rest. b = FirstValue v rest \<and> (\<forall>kvs. v \<noteq> JObject kvs) \<and> v \<noteq> JNull"
  then obtain v rest where "b = FirstValue v rest" "\<forall>kvs. v \<noteq> JObject kvs" "v \<noteq> JNull"
    by blast
  then show ?thesis by (cases v) simp_all
qed

lemma code_Write_fresh: "code (Write (Header_Set fresh_writer k v) b) = Some 200"
  by (simp add: Write_def WriteHeader_def Header_Set_def fresh_writer_def Let_def)

text \<open>
  C7. Claimed: every body that is not valid JSON is answered with HTTP 400 and no
  backend call. The handler decodes with \<^verbatim>\<open>json.NewDecoder(r.Body).Decode\<close>, which
  reads the first JSON value of the body and nothing after it. The body
  \<^verbatim>\<open>{"query":"hi"} trailing garbage\<close> is not valid JSON, yet the handler sends one
  request to the backend and answers with status 200.
\<close>

theorem trailing_garbage_accepted:
  "\<not> valid_JSON ex_trailing_body
   \<and> fst (templateHandler ex_net ex_config ex_registry ''default'' fresh_writer
            ((ex_request Map.empty)\<lparr>Body := Decode_map ex_trailing_body\<rparr>) ex_world) = Return
   \<and> code (fst (snd (templateHandler ex_net ex_config ex_registry ''default'' fresh_writer
            ((ex_request Map.empty)\<lparr>Body := Decode_map ex_trailing_body\<rparr>) ex_world))) = Some 200
   \<and> length (sent (snd (snd (templateHandler ex_net ex_config ex_registry ''default'' fresh_writer
            ((ex_request Map.empty)\<lparr>Body := Decode_map ex_trailing_body\<rparr>) ex_world)))) = 1"
proof -
  let ?m = "[''query'' \<mapsto> JString ''hi'']"
  let ?r = "(ex_request Map.empty)\<lparr>Body := Decode_map ex_trailing_body\<rparr>"
  have v: "\<not> valid_JSON ex_trailing_body"
    by (simp add: ex_trailing_body_def is_space_def)
  have body: "Body ?r = Inr ?m" by (simp add: ex_trailing_body_def)
  have h: "Header_Get (Header ?r) ''Authorization'' = ''Bearer '' @ AuthToken ex_config"
    using ex_header [of Map.empty] by simp
  have a: "OllamaParams ex_config = Some 0" by (simp add: ex_config_def)
  have q: "?m ''query'' = Some (JString ''hi'')" by simp
  note p = prepare_builds [OF body q render_hi a, of fresh_writer ex_world]
  have u: "url_ok ex_net (APIURL ex_config)" by (simp add: ex_net_def)
  have t: "templateHandler ex_net ex_config ex_registry ''default'' fresh_writer ?r ex_world
      = serve ex_net ex_config ex_registry ''default'' fresh_writer ?r ex_world"
    unfolding templateHandler_def by (rule authenticate_match [OF h])
  from serve_sends [OF p u] obtain req where
    "sent (snd (snd (serve ex_net ex_config ex_registry ''default'' fresh_writer ?r ex_world)))
       = sent ex_world @ [req]" by blast
  then have n: "length (sent (snd (snd (serve ex_net ex_config ex_registry ''default''
       fresh_writer ?r ex_world)))) = 1"
    by (simp add: ex_world_def)
  have d: "\<And>req. Do ex_net req
      = Received \<lparr>as_struct = Inr ex_response, as_map = Inr ex_response_map\<rparr>"
    by (simp add: ex_net_def)
  have "\<And>b \<sigma>. \<exists>\<sigma>'. forward ex_net ex_config b fresh_writer \<sigma>
      = (Return,
         Write (Header_Set fresh_writer ''Content-Type'' ''application/json'')
           (Encoded (filteredResponse ex_config ex_response ex_response_map)),
         \<sigma>')"
    by (rule forward_success [OF u d]) simp_all
  then obtain \<sigma>' where
    "serve ex_net ex_config ex_registry ''default'' fresh_writer ?r ex_world
      = (Return,
         Write (Header_Set fresh_writer ''Content-Type'' ''application/json'')
           (Encoded (filteredResponse ex_config ex_response ex_response_map)),
         \<sigma>')"
    unfolding serve_def by (simp only: p sum.case prod.case) blast
  then have e: "fst (serve ex_net ex_config ex_registry ''default'' fresh_writer ?r ex_world) = Return"
    and c: "code (fst (snd (serve ex_net ex_config ex_registry ''default'' fresh_writer ?r ex_world)))
      = Some 200"
    by (simp_all add: code_Write_fresh)
  from v e c n show ?thesis by (simp only: t) simp
qed

text \<open>
  C7, as amended. When the body does not begin with a well-formed JSON value, or its first
  JSON value is neither an object nor \<^verbatim>\<open>null\<close>, or the decoded map has no
  \<^verbatim>\<open>query\<close> or one that is not a string, the handler behind the authenticator
  returns with status 400 and the process state as it was: no backend request is built or
  sent. With a matching Authorization header this is the outcome of \<open>templateHandler\<close>
  itself, and with any header \<open>templateHandler\<close> sends nothing to the backend. Bytes
  after the first JSON value are not examined.
\<close>

theorem bad_request_400_no_backend_call:
  assumes body: "Body r = Decode_map b"
    and bad: "b = NoValue
      \<or> (\<exists>v rest. b = FirstValue v rest \<and> (\<forall>kvs. v \<noteq> JObject kvs) \<and> v \<noteq> JNull)
      \<or> (\<exists>m. Decode_map b = Inr m \<and> (\<forall>s. m ''query'' \<noteq> Some (JString s)))"
  shows "\<exists>w'. serve net config tc name fresh_writer r \<sigma> = (Return, w', \<sigma>) \<and> code w' = Some 400
     \<and> (Header_Get (Header r) ''Authorization'' = ''Bearer '' @ AuthToken config \<longrightarrow>
          templateHandler net config tc name fresh_writer r \<sigma> = (Return, w', \<sigma>))
     \<and> sent (snd (snd (templateHandler net config tc name fresh_writer r \<sigma>))) = sent \<sigma>"
proof -
  from bad have
    "(b = NoValue \<or> (\<exists>v rest. b = FirstValue v rest \<and> (\<forall>kvs. v \<noteq> JObject kvs) \<and> v \<noteq> JNull))
     \<or> (\<exists>m. Decode_map b = Inr m \<and> (\<forall>s. m ''query'' \<noteq> Some (JString s)))"
    by blast
  then show ?thesis
  proof
    assume "b = NoValue \<or> (\<exists>v rest. b = FirstValue v rest \<and> (\<forall>kvs. v \<noteq> JObject kvs) \<and> v \<noteq> JNull)"
    then have "Decode_map b = Inl JSONError" by (rule Decode_map_fails)
    with body have "Body r = Inl JSONError
        \<or> (Body r = Inr Map.empty \<and> (\<forall>s. Map.empty ''query'' \<noteq> Some (JString s)))"
      by simp
    then show ?thesis by (rule serve_rejects_bad_request)
  next
    assume "\<exists>m. Decode_map b = Inr m \<and> (\<forall>s. m ''query'' \<noteq> Some (JString s))"
    then obtain m where "Decode_map b = Inr m" "\<forall>s. m ''query'' \<noteq> Some (JString s)" by blast
    with body have "Body r = Inl JSONError
        \<or> (Body r = Inr m \<and> (\<forall>s. m ''query'' \<noteq> Some (JString s)))"
      by simp
    then show ?thesis by (rule serve_rejects_bad_request)
  qed
qed

theorem bad_request_400_no_backend_call_witness:
  "\<exists>w'. templateHandler ex_net ex_config ex_registry ''default'' fresh_writer
           ((ex_request Map.empty)
              \<lparr>Body := Decode_map (FirstValue (JObject [(''query'', JNumber 0x4014000000000000)]) [])\<rparr>)
           ex_world
         = (Return, w', ex_world) \<and> code w' = Some 400"
proof -
  let ?b = "FirstValue (JObject [(''query'', JNumber 0x4014000000000000)]) []"
  let ?r = "(ex_request Map.empty)\<lparr>Body := Decode_map ?b\<rparr>"
  have body: "Body ?r = Decode_map ?b" by simp
  have bad: "?b = NoValue
      \<or> (\<exists>v rest. ?b = FirstValue v rest \<and> (\<forall>kvs. v \<noteq> JObject kvs) \<and> v \<noteq> JNull)
      \<or> (\<exists>m. Decode_map ?b = Inr m \<and> (\<forall>s. m ''query'' \<noteq> Some (JString s)))"
    by simp
  have h: "Header_Get (Header ?r) ''Authorization'' = ''Bearer '' @ AuthToken ex_config"
    using ex_header [of Map.empty] by simp
  from bad_request_400_no_backend_call [OF body bad, of ex_net ex_config ex_registry "''default''" ex_world] h
  show ?thesis by blast
qed

end
